theory Spec2Isabelle
  imports Complex_Main "HOL-Library.Word"
begin

section \<open>Values shared by both stages\<close>

text \<open>
  The pipeline has two programs: \<^verbatim>\<open>face-detection/fd_component.py\<close> (Ingestion) and
  \<^verbatim>\<open>face-recognition/fr_lambda.py\<close> (Recognition). Both are glue around library calls
  (JSON, base64, PIL, torch, the queue client). The glue is modelled as written; every
  library call is a field of the record \<open>env\<close> below and may fail where the library may
  raise. Python exceptions are values of \<open>exn\<close>; a fallible call returns \<open>exn + 'a\<close>
  with \<open>Inl\<close> the exception.
\<close>

type_synonym bytes = "8 word list"
type_synonym path = string

datatype exn =
  ValueError | TypeError | KeyError | AttributeError | IndexError
  | OSError | RuntimeError | ZeroDivisionError | ClientError

text \<open>
  What \<^verbatim>\<open>json.loads\<close> returns: \<^verbatim>\<open>None\<close>, \<^verbatim>\<open>bool\<close>, \<^verbatim>\<open>int\<close>, \<^verbatim>\<open>float\<close>, \<^verbatim>\<open>str\<close>,
  \<^verbatim>\<open>list\<close>, \<^verbatim>\<open>dict\<close>. A dict is an association list with lookup by \<open>map_of\<close>.
  Floats are idealised as reals.
\<close>

datatype json =
  JNull | JBool bool | JInt int | JFloat real | JStr string
  | JArr "json list" | JObj "(string \<times> json) list"

text \<open>Python truthiness, as tested by \<^verbatim>\<open>not x\<close>.\<close>

fun truthy :: "json \<Rightarrow> bool" where
  "truthy JNull = False"
| "truthy (JBool b) = b"
| "truthy (JInt i) = (i \<noteq> 0)"
| "truthy (JFloat r) = (r \<noteq> 0)"
| "truthy (JStr s) = (s \<noteq> [])"
| "truthy (JArr xs) = (xs \<noteq> [])"
| "truthy (JObj kvs) = (kvs \<noteq> [])"

text \<open>\<^verbatim>\<open>obj.get(key)\<close>: only a dict has the method; an absent key gives \<^verbatim>\<open>None\<close>.\<close>

fun py_get :: "json \<Rightarrow> string \<Rightarrow> exn + json" where
  "py_get (JObj kvs) k = Inr (case map_of kvs k of None \<Rightarrow> JNull | Some v \<Rightarrow> v)"
| "py_get _ k = Inl AttributeError"

text \<open>\<^verbatim>\<open>obj.get(key, default)\<close>.\<close>

fun py_get_default :: "json \<Rightarrow> string \<Rightarrow> json \<Rightarrow> exn + json" where
  "py_get_default (JObj kvs) k d = Inr (case map_of kvs k of None \<Rightarrow> d | Some v \<Rightarrow> v)"
| "py_get_default _ k d = Inl AttributeError"

text \<open>
  \<^verbatim>\<open>obj[key]\<close> with a string key: \<^verbatim>\<open>KeyError\<close> on a dict without the key,
  \<^verbatim>\<open>TypeError\<close> on everything that is not a dict.
\<close>

fun py_subscript :: "json \<Rightarrow> string \<Rightarrow> exn + json" where
  "py_subscript (JObj kvs) k = (case map_of kvs k of None \<Rightarrow> Inl KeyError | Some v \<Rightarrow> Inr v)"
| "py_subscript _ k = Inl TypeError"

text \<open>
  \<^verbatim>\<open>for record in x\<close>: a list yields its items, a dict its keys, a string its
  characters; the other JSON values are not iterable.
\<close>

fun py_iter :: "json \<Rightarrow> exn + json list" where
  "py_iter (JArr xs) = Inr xs"
| "py_iter (JObj kvs) = Inr (map (\<lambda>kv. JStr (fst kv)) kvs)"
| "py_iter (JStr s) = Inr (map (\<lambda>c. JStr [c]) s)"
| "py_iter _ = Inl TypeError"

text \<open>Sequencing of fallible steps: the first exception ends the computation.\<close>

definition bind_exn :: "exn + 'a \<Rightarrow> ('a \<Rightarrow> exn + 'b) \<Rightarrow> exn + 'b" where
  "bind_exn m f = (case m of Inl e \<Rightarrow> Inl e | Inr x \<Rightarrow> f x)"

text \<open>
  A step that also reads or changes state: it returns its result, or the exception it
  raised, together with the state at that point, so that what was done before an
  exception stays done.
\<close>

type_synonym ('s, 'a) prog = "'s \<Rightarrow> (exn + 'a) \<times> 's"

definition bnd :: "('s, 'a) prog \<Rightarrow> ('a \<Rightarrow> ('s, 'b) prog) \<Rightarrow> ('s, 'b) prog" where
  "bnd m f s = (case m s of (Inl e, s') \<Rightarrow> (Inl e, s') | (Inr x, s') \<Rightarrow> f x s')"

text \<open>A call that leaves the state alone.\<close>

definition call :: "exn + 'a \<Rightarrow> ('s, 'a) prog" where
  "call r s = (r, s)"

subsection \<open>Tensors and images\<close>

text \<open>
  A torch tensor of rank 3 is a list of planes of rows (channel, height, width); an RGB
  image as PIL and numpy hold it is height \<times> width \<times> 3 bytes. float32 is idealised as
  \<open>real\<close>.
\<close>

type_synonym tensor = "real list list list"
type_synonym image = "8 word list list list"

definition has_shape :: "nat \<Rightarrow> nat \<Rightarrow> nat \<Rightarrow> 'a list list list \<Rightarrow> bool" where
  "has_shape a b c t =
     (length t = a \<and> (\<forall>p \<in> set t. length p = b \<and> (\<forall>r \<in> set p. length r = c)))"

definition elems :: "'a list list list \<Rightarrow> 'a list" where
  "elems t = concat (concat t)"

definition map3 :: "('a \<Rightarrow> 'b) \<Rightarrow> 'a list list list \<Rightarrow> 'b list list list" where
  "map3 f t = map (map (map f)) t"

text \<open>\<^verbatim>\<open>t.min()\<close> and \<^verbatim>\<open>t.max()\<close> over all elements; torch raises on an empty tensor.\<close>

definition tensor_min :: "tensor \<Rightarrow> exn + real" where
  "tensor_min t = (if elems t = [] then Inl RuntimeError else Inr (Min (set (elems t))))"

definition tensor_max :: "tensor \<Rightarrow> exn + real" where
  "tensor_max t = (if elems t = [] then Inl RuntimeError else Inr (Max (set (elems t))))"

text \<open>
  \<^verbatim>\<open>t / d\<close> for a scalar \<open>d\<close>. torch would produce inf or nan for \<open>d = 0\<close>; the model
  flags that division as \<open>ZeroDivisionError\<close>, so that its absence can be stated.
\<close>

definition tensor_div :: "tensor \<Rightarrow> real \<Rightarrow> exn + tensor" where
  "tensor_div t d = (if d = 0 then Inl ZeroDivisionError else Inr (map3 (\<lambda>x. x / d) t))"

text \<open>\<^verbatim>\<open>.byte()\<close>: conversion to uint8, truncating towards zero and wrapping modulo 256.\<close>

definition byte :: "real \<Rightarrow> 8 word" where
  "byte x = word_of_int (if 0 \<le> x then \<lfloor>x\<rfloor> else \<lceil>x\<rceil>)"

text \<open>\<^verbatim>\<open>.permute(1, 2, 0)\<close>: (C, H, W) to (H, W, C), \<open>out[h][w][c] = t[c][h][w]\<close>.\<close>

definition permute_1_2_0 :: "'a list list list \<Rightarrow> 'a list list list" where
  "permute_1_2_0 t =
     (let C = length t;
          H = (if t = [] then 0 else length (hd t));
          W = (if t = [] \<or> hd t = [] then 0 else length (hd (hd t)))
      in map (\<lambda>h. map (\<lambda>w. map (\<lambda>c. t ! c ! h ! w) [0..<C]) [0..<W]) [0..<H])"

text \<open>\<^verbatim>\<open>np.transpose(a, (2, 0, 1))\<close>: (H, W, C) to (C, H, W), \<open>out[c][h][w] = a[h][w][c]\<close>.\<close>

definition transpose_2_0_1 :: "'a list list list \<Rightarrow> 'a list list list" where
  "transpose_2_0_1 a =
     (let H = length a;
          W = (if a = [] then 0 else length (hd a));
          C = (if a = [] \<or> hd a = [] then 0 else length (hd (hd a)))
      in map (\<lambda>c. map (\<lambda>h. map (\<lambda>w. a ! h ! w ! c) [0..<W]) [0..<H]) [0..<C])"

text \<open>
  \<^verbatim>\<open>Image.fromarray(arr, mode="RGB")\<close>: the array must hold three bytes per pixel.
\<close>

definition fromarray_rgb :: "8 word list list list \<Rightarrow> exn + image" where
  "fromarray_rgb arr =
     (if \<forall>row \<in> set arr. \<forall>px \<in> set row. length px = 3 then Inr arr else Inl ValueError)"

subsection \<open>Environment and state\<close>

datatype queue = RequestQueue | ResponseQueue

datatype level = INFO | WARNING | ERROR

text \<open>
  The library calls and the configuration. \<open>utf8_decode\<close> is \<^verbatim>\<open>payload.decode("utf-8")\<close>;
  \<open>image_open\<close> is \<^verbatim>\<open>Image.open(...).convert("RGB")\<close> on the bytes of a file and
  \<open>image_save\<close> the bytes that \<^verbatim>\<open>save\<close> writes for a \<^verbatim>\<open>.jpg\<close> name; \<open>mtcnn n\<close> is the
  detector built with \<^verbatim>\<open>image_size=n\<close>, which returns a face tensor or \<^verbatim>\<open>None\<close>;
  \<open>tmp_name\<close> is the name \<^verbatim>\<open>NamedTemporaryFile\<close> settles on, given the files that
  exist; \<open>sqs_accepts\<close> says whether \<^verbatim>\<open>sqs.send_message\<close> succeeds for a queue and a
  message body; \<open>torch_jit_load\<close> and \<open>torch_load\<close> are the results of loading the
  network and the gallery (the stored embeddings and their names). A message body is
  the text \<open>json_dumps env v\<close> of a JSON value \<open>v\<close>. The two queue URLs are taken
  to name different queues.
\<close>

record env =
  TMP_DIR :: path
  utf8_decode :: "bytes \<Rightarrow> exn + string"
  json_loads :: "string \<Rightarrow> exn + json"
  json_dumps :: "json \<Rightarrow> string"
  b64decode :: "string \<Rightarrow> exn + bytes"
  b64encode :: "bytes \<Rightarrow> string"
  image_open :: "bytes \<Rightarrow> exn + image"
  image_save :: "image \<Rightarrow> bytes"
  mtcnn :: "nat \<Rightarrow> image \<Rightarrow> exn + tensor option"
  sqs_accepts :: "queue \<Rightarrow> string \<Rightarrow> bool"
  tmp_name :: "(path \<rightharpoonup> bytes) \<Rightarrow> path"
  torch_jit_load :: "exn + (tensor \<Rightarrow> exn + real list)"
  torch_load :: "exn + (real list list \<times> string list)"

text \<open>
  The state a handler can change: the files of the scratch area, the two queues (the
  bodies sent so far, oldest first), the log (levels only), and the fields of the
  module-level \<^verbatim>\<open>recognizer\<close> object.
\<close>

record world =
  files :: "path \<rightharpoonup> bytes"
  request_queue :: "string list"
  response_queue :: "string list"
  log :: "level list"
  resnet :: "(tensor \<Rightarrow> exn + real list) option"
  embeddings :: "real list list option"
  names :: "string list option"

definition logging :: "level \<Rightarrow> (world, unit) prog" where
  "logging l w = (Inr (), w\<lparr>log := log w @ [l]\<rparr>)"

text \<open>\<^verbatim>\<open>sqs.send_message(QueueUrl=q, MessageBody=body)\<close>.\<close>

definition send_message :: "env \<Rightarrow> queue \<Rightarrow> string \<Rightarrow> (world, unit) prog" where
  "send_message env q body w =
     (if sqs_accepts env q body
      then (Inr (), (case q of
                  RequestQueue \<Rightarrow> w\<lparr>request_queue := request_queue w @ [body]\<rparr>
                | ResponseQueue \<Rightarrow> w\<lparr>response_queue := response_queue w @ [body]\<rparr>))
      else (Inl ClientError, w))"

text \<open>\<^verbatim>\<open>os.path.join(d, name)\<close> for a relative \<open>name\<close>.\<close>

definition os_path_join :: "path \<Rightarrow> path \<Rightarrow> path" where
  "os_path_join d name =
     (if d = [] then name else if last d = CHR ''/'' then d @ name else d @ ''/'' @ name)"

text \<open>
  Reading a whole file (\<^verbatim>\<open>open(p, "rb").read()\<close>, \<^verbatim>\<open>Image.open(p)\<close>) and writing
  one. Directories are not tracked: \<^verbatim>\<open>os.makedirs(d, exist_ok=True)\<close> changes nothing
  that is modelled, and writes always succeed.
\<close>

definition read_file :: "path \<Rightarrow> (world, bytes) prog" where
  "read_file p w = ((case files w p of None \<Rightarrow> Inl OSError | Some bs \<Rightarrow> Inr bs), w)"

definition write_file :: "path \<Rightarrow> bytes \<Rightarrow> (world, unit) prog" where
  "write_file p bs w = (Inr (), w\<lparr>files := (files w)(p \<mapsto> bs)\<rparr>)"

text \<open>\<^verbatim>\<open>base64.b64decode(x)\<close> and \<^verbatim>\<open>json.loads(x)\<close> on a JSON value: only text is accepted.\<close>

fun py_b64decode :: "env \<Rightarrow> json \<Rightarrow> exn + bytes" where
  "py_b64decode env (JStr s) = b64decode env s"
| "py_b64decode env _ = Inl TypeError"

fun py_json_loads :: "env \<Rightarrow> json \<Rightarrow> exn + json" where
  "py_json_loads env (JStr s) = json_loads env s"
| "py_json_loads env _ = Inl TypeError"

section \<open>Ingestion: fd\_component.py\<close>

text \<open>\<^verbatim>\<open>MTCNN(image_size=240, margin=0, min_face_size=20)\<close>.\<close>

definition image_size :: nat where
  "image_size = 240"

text \<open>
  Lines 65 to 67 of \<^verbatim>\<open>detect_face_to_file\<close>:
  \<^verbatim>\<open>
  face_img = face_tensor - face_tensor.min()
  denom = face_img.max() - face_img.min()
  face_img = (face_img / denom * 255) if denom > 0 else face_img * 0
  \<close>
\<close>

definition normalize_crop :: "tensor \<Rightarrow> exn + tensor" where
  "normalize_crop face_tensor =
     bind_exn (tensor_min face_tensor) (\<lambda>m0.
       let face_img = map3 (\<lambda>x. x - m0) face_tensor in
       bind_exn (tensor_max face_img) (\<lambda>mx.
       bind_exn (tensor_min face_img) (\<lambda>mn.
         let denom = mx - mn in
         if denom > 0
         then bind_exn (tensor_div face_img denom) (\<lambda>q. Inr (map3 (\<lambda>x. x * 255) q))
         else Inr (map3 (\<lambda>x. x * 0) face_img))))"

text \<open>
  \<^verbatim>\<open>FaceDetection.detect_face_to_file(image_bytes, output_dir)\<close>. The round trip
  \<^verbatim>\<open>Image.fromarray(np.array(img))\<close> of lines 56 and 57 is the identity on an RGB
  image. The file written is always \<^verbatim>\<open>output_dir/detected_face.jpg\<close>, and nothing
  removes it.
\<close>

definition detect_face_to_file :: "env \<Rightarrow> bytes \<Rightarrow> path \<Rightarrow> (world, path option) prog" where
  "detect_face_to_file env image_bytes output_dir =
     bnd (call (image_open env image_bytes)) (\<lambda>img_pil.
     bnd (call (mtcnn env image_size img_pil)) (\<lambda>r.
       case r of
         None \<Rightarrow> call (Inr None)
       | Some face_tensor \<Rightarrow>
           bnd (call (normalize_crop face_tensor)) (\<lambda>face_img.
           bnd (call (fromarray_rgb (permute_1_2_0 (map3 byte face_img)))) (\<lambda>face_pil.
             let file_path = os_path_join output_dir ''detected_face.jpg'' in
             bnd (write_file file_path (image_save env face_pil)) (\<lambda>_.
             call (Inr (Some file_path)))))))"

text \<open>The body of the \<^verbatim>\<open>try\<close> of \<^verbatim>\<open>on_message_received\<close>, lines 80 to 115.\<close>

definition on_message_try :: "env \<Rightarrow> bytes \<Rightarrow> (world, unit) prog" where
  "on_message_try env payload =
     bnd (call (utf8_decode env payload)) (\<lambda>text.
     bnd (call (json_loads env text)) (\<lambda>message.
     bnd (call (py_get message ''encoded'')) (\<lambda>encoded.
     bnd (call (py_get message ''request_id'')) (\<lambda>request_id.
     bnd (call (py_get message ''filename'')) (\<lambda>filename.
       if \<not> truthy encoded \<or> \<not> truthy request_id \<or> \<not> truthy filename
       then logging WARNING
       else
         bnd (call (py_b64decode env encoded)) (\<lambda>img_bytes.
         bnd (detect_face_to_file env img_bytes (TMP_DIR env)) (\<lambda>detected_face_path.
           case detected_face_path of
             None \<Rightarrow>
               bnd (logging INFO) (\<lambda>_.
               send_message env ResponseQueue
                 (json_dumps env (JObj [(''request_id'', request_id),
                                        (''filename'', filename),
                                        (''result'', JStr ''No-Face'')])))
           | Some p \<Rightarrow>
               bnd (read_file p) (\<lambda>data.
                 let encoded_face = b64encode env data;
                     sqs_payload = JObj [(''request_id'', request_id),
                                         (''filename'', filename),
                                         (''face'', JStr encoded_face)] in
                 bnd (send_message env RequestQueue (json_dumps env sqs_payload)) (\<lambda>_.
                 logging INFO)))))))))"

text \<open>
  \<^verbatim>\<open>on_message_received(topic, payload)\<close>: the line logged on entry, the \<^verbatim>\<open>try\<close>, and
  the handler \<^verbatim>\<open>except Exception\<close> that logs the error. Nothing is returned.
\<close>

definition on_message_received :: "env \<Rightarrow> bytes \<Rightarrow> world \<Rightarrow> world" where
  "on_message_received env payload w =
     (case on_message_try env payload (snd (logging INFO w)) of
        (Inl e, w1) \<Rightarrow> snd (logging ERROR w1)
      | (Inr _, w1) \<Rightarrow> w1)"

section \<open>Recognition: fr\_lambda.py\<close>

text \<open>
  \<^verbatim>\<open>torch.dist(a, b)\<close>: the Euclidean norm of \<open>a - b\<close>, where a tensor with a single
  element is broadcast against the other; other sizes that differ do not broadcast.
\<close>

definition torch_dist :: "real list \<Rightarrow> real list \<Rightarrow> exn + real" where
  "torch_dist a b =
     (if length a = length b then Inr (sqrt (\<Sum>(x, y) \<leftarrow> zip a b. (x - y)\<^sup>2))
      else if length b = 1 then Inr (sqrt (\<Sum>x \<leftarrow> a. (x - hd b)\<^sup>2))
      else if length a = 1 then Inr (sqrt (\<Sum>y \<leftarrow> b. (hd a - y)\<^sup>2))
      else Inl RuntimeError)"

text \<open>\<^verbatim>\<open>[torch.dist(emb, e).item() for e in self._embeddings]\<close>.\<close>

fun dists_of :: "real list \<Rightarrow> real list list \<Rightarrow> exn + real list" where
  "dists_of emb [] = Inr []"
| "dists_of emb (e # es) =
     bind_exn (torch_dist emb e) (\<lambda>d. bind_exn (dists_of emb es) (\<lambda>ds. Inr (d # ds)))"

text \<open>
  \<^verbatim>\<open>np.argmin\<close>: one pass that replaces the best index only by a strictly smaller
  value, so the first minimum wins; an empty sequence raises \<^verbatim>\<open>ValueError\<close>.
\<close>

fun argmin_from :: "real list \<Rightarrow> nat \<Rightarrow> nat \<Rightarrow> real \<Rightarrow> nat" where
  "argmin_from [] i best_i best = best_i"
| "argmin_from (x # xs) i best_i best =
     (if x < best then argmin_from xs (Suc i) i x else argmin_from xs (Suc i) best_i best)"

definition np_argmin :: "real list \<Rightarrow> exn + nat" where
  "np_argmin ds = (case ds of [] \<Rightarrow> Inl ValueError | d # ds' \<Rightarrow> Inr (argmin_from ds' 1 0 d))"

text \<open>\<^verbatim>\<open>xs[i]\<close> for \<open>i \<ge> 0\<close>.\<close>

definition py_index :: "'a list \<Rightarrow> nat \<Rightarrow> exn + 'a" where
  "py_index xs i = (if i < length xs then Inr (xs ! i) else Inl IndexError)"

text \<open>\<^verbatim>\<open>FaceRecognition._load_models\<close>: each artifact is loaded once and kept.\<close>

definition load_models :: "env \<Rightarrow> (world, unit) prog" where
  "load_models env =
     bnd (\<lambda>w. if resnet w = None
              then (case torch_jit_load env of
                      Inl e \<Rightarrow> (Inl e, w)
                    | Inr m \<Rightarrow> (Inr (), w\<lparr>resnet := Some m\<rparr>))
              else (Inr (), w)) (\<lambda>_.
         (\<lambda>w. if embeddings w = None \<or> names w = None
              then (case torch_load env of
                      Inl e \<Rightarrow> (Inl e, w)
                    | Inr saved \<Rightarrow>
                        (Inr (), w\<lparr>embeddings := Some (fst saved), names := Some (snd saved)\<rparr>))
              else (Inr (), w)))"

text \<open>
  Lines 54 to 57 of \<^verbatim>\<open>predict_name\<close>: the distances to the stored embeddings, the
  index of the least one, and the name at that index.
\<close>

definition nearest_name :: "real list \<Rightarrow> real list list \<Rightarrow> string list \<Rightarrow> exn + string" where
  "nearest_name emb embs nms =
     bind_exn (dists_of emb embs) (\<lambda>dists.
     bind_exn (np_argmin dists) (\<lambda>idx.
     py_index nms idx))"

text \<open>
  \<^verbatim>\<open>FaceRecognition.predict_name(face_img_path)\<close>. The loaded network is a function
  from the image tensor (the batch dimension added by \<^verbatim>\<open>unsqueeze(0)\<close> is left out) to
  the embedding. Calling or iterating a field that is still \<^verbatim>\<open>None\<close> would be a
  \<^verbatim>\<open>TypeError\<close>; after \<open>load_models\<close> this does not happen.
\<close>

definition predict_name :: "env \<Rightarrow> path \<Rightarrow> (world, string) prog" where
  "predict_name env face_img_path =
     bnd (load_models env) (\<lambda>_.
     bnd (read_file face_img_path) (\<lambda>data.
     bnd (call (image_open env data)) (\<lambda>face_pil.
       let face_np = map3 (\<lambda>v. real (unat v) / 255) face_pil;
           face_tensor = transpose_2_0_1 face_np in
       (\<lambda>w. ((case (resnet w, embeddings w, names w) of
                  (Some model, Some embs, Some nms) \<Rightarrow>
                    bind_exn (model face_tensor) (\<lambda>emb. nearest_name emb embs nms)
                | _ \<Rightarrow> Inl TypeError), w)))))"

text \<open>
  The loop body of \<^verbatim>\<open>lambda_handler\<close> runs on the state and on the local variable
  \<^verbatim>\<open>face_path\<close>, which is unbound at first and keeps its value from one record to the
  next.
\<close>

type_synonym rstate = "path option \<times> world"

definition in_world :: "(world, 'a) prog \<Rightarrow> (rstate, 'a) prog" where
  "in_world m s = (case m (snd s) of (r, w') \<Rightarrow> (r, (fst s, w')))"

text \<open>
  \<^verbatim>\<open>tempfile.NamedTemporaryFile(delete=False, suffix=".jpg", dir="/tmp")\<close>: the file
  is created exclusively, so a name that exists is never reused.
\<close>

definition named_temporary_file :: "env \<Rightarrow> (world, path) prog" where
  "named_temporary_file env w =
     (let p = tmp_name env (files w)
      in if p \<in> dom (files w) then (Inl OSError, w)
         else (Inr p, w\<lparr>files := (files w)(p \<mapsto> [])\<rparr>))"

definition set_face_path :: "path \<Rightarrow> (rstate, unit) prog" where
  "set_face_path p s = (Inr (), (Some p, snd s))"

text \<open>The body of the \<^verbatim>\<open>try\<close>, lines 71 to 85.\<close>

definition record_try :: "env \<Rightarrow> json \<Rightarrow> (rstate, unit) prog" where
  "record_try env record =
     bnd (call (py_subscript record ''body'')) (\<lambda>body.
     bnd (call (py_json_loads env body)) (\<lambda>payload.
     bnd (call (py_subscript payload ''request_id'')) (\<lambda>request_id.
     bnd (call (py_subscript payload ''face'')) (\<lambda>face_b64.
     bnd (in_world (named_temporary_file env)) (\<lambda>tmpf.
     bnd (call (py_b64decode env face_b64)) (\<lambda>data.
     bnd (in_world (write_file tmpf data)) (\<lambda>_.
     bnd (set_face_path tmpf) (\<lambda>_.
     bnd (in_world (predict_name env tmpf)) (\<lambda>label.
       let result_msg = JObj [(''request_id'', request_id), (''result'', JStr label)] in
       in_world (send_message env ResponseQueue (json_dumps env result_msg)))))))))))"

text \<open>
  The \<^verbatim>\<open>finally\<close>, lines 90 to 94: \<^verbatim>\<open>os.remove\<close> of an existing file succeeds in
  this model, so the inner \<^verbatim>\<open>except OSError\<close> is never entered.
\<close>

definition record_finally :: "rstate \<Rightarrow> rstate" where
  "record_finally s =
     (case fst s of
        None \<Rightarrow> s
      | Some face_path \<Rightarrow>
          if face_path \<in> dom (files (snd s))
          then (fst s, (snd s)\<lparr>files := (files (snd s))(face_path := None)\<rparr>)
          else s)"

text \<open>One iteration: \<^verbatim>\<open>try\<close>, \<^verbatim>\<open>except Exception\<close> (which prints the error), \<^verbatim>\<open>finally\<close>.\<close>

definition process_record :: "env \<Rightarrow> json \<Rightarrow> rstate \<Rightarrow> rstate" where
  "process_record env record s =
     (case record_try env record s of
        (Inl e, s1) \<Rightarrow> record_finally (snd (in_world (logging ERROR) s1))
      | (Inr _, s1) \<Rightarrow> record_finally s1)"

definition response :: "env \<Rightarrow> json" where
  "response env =
     JObj [(''statusCode'', JInt 200),
           (''body'', JStr (json_dumps env (JObj [(''message'', JStr ''Face recognition completed.'')])))]"

text \<open>
  \<^verbatim>\<open>lambda_handler(event, context)\<close>. Only \<^verbatim>\<open>event.get("Records", [])\<close> and the start
  of the iteration are outside every \<^verbatim>\<open>try\<close>.
\<close>

definition lambda_handler :: "env \<Rightarrow> json \<Rightarrow> world \<Rightarrow> (exn + json) \<times> world" where
  "lambda_handler env event w =
     (case bind_exn (py_get_default event ''Records'' (JArr [])) py_iter of
        Inl e \<Rightarrow> (Inl e, w)
      | Inr records \<Rightarrow> (Inr (response env), snd (fold (process_record env) records (None, w))))"

section \<open>Observations used in the statements\<close>

text \<open>
  What a handler run from \<open>w\<close> to \<open>w'\<close> has sent: the new work-queue bodies and the new
  result bodies.
\<close>

definition emitted :: "world \<Rightarrow> world \<Rightarrow> string list \<times> string list" where
  "emitted w w' =
     (drop (length (request_queue w)) (request_queue w'),
      drop (length (response_queue w)) (response_queue w'))"


section \<open>A concrete environment\<close>

text \<open>
  A small environment on which the handlers can be run. Four inbound payloads are
  known: two photos with a face (requests \<open>r1\<close> and \<open>r4\<close>), a blank image (\<open>r2\<close>) and
  a message without \<open>request_id\<close>; two work-queue bodies carry the same crop with and
  without \<open>filename\<close>. Every other text is not JSON. The gallery holds one vector
  under two names. The codecs are toys that keep the
  contracts the statements rely on: the base64 pair is a bijection between bytes and
  characters, and the image codec keeps the size of an image.
\<close>

definition example_utf8_decode :: "bytes \<Rightarrow> exn + string" where
  "example_utf8_decode bs =
     (if bs = [1] then Inr ''msg1'' else if bs = [2] then Inr ''msg2''
      else if bs = [3] then Inr ''msg3'' else if bs = [4] then Inr ''msg4''
      else Inl ValueError)"

definition example_json_loads :: "string \<Rightarrow> exn + json" where
  "example_json_loads s =
     (if s = ''msg1'' then
        Inr (JObj [(''encoded'', JStr ''photo''), (''request_id'', JStr ''r1''),
                   (''filename'', JStr ''a.jpg'')])
      else if s = ''msg2'' then
        Inr (JObj [(''encoded'', JStr ''blank''), (''request_id'', JStr ''r2''),
                   (''filename'', JStr ''b.jpg'')])
      else if s = ''msg3'' then
        Inr (JObj [(''encoded'', JStr ''photo''), (''filename'', JStr ''c.jpg'')])
      else if s = ''msg4'' then
        Inr (JObj [(''encoded'', JStr ''photo''), (''request_id'', JStr ''r4''),
                   (''filename'', JStr ''d.jpg'')])
      else if s = ''rec1'' then
        Inr (JObj [(''request_id'', JStr ''r1''), (''filename'', JStr ''a.jpg''),
                   (''face'', JStr ''crop'')])
      else if s = ''rec2'' then
        Inr (JObj [(''request_id'', JStr ''r1''), (''face'', JStr ''crop'')])
      else Inl ValueError)"

definition example_json_dumps :: "json \<Rightarrow> string" where
  "example_json_dumps j =
     (case j of
        JObj kvs \<Rightarrow>
          concat (map (\<lambda>kv. fst kv @ ''='' @ (case snd kv of JStr s \<Rightarrow> s | _ \<Rightarrow> ''?'') @ '';'') kvs)
      | _ \<Rightarrow> ''?'')"

definition example_b64decode :: "string \<Rightarrow> exn + bytes" where
  "example_b64decode s = Inr (map (\<lambda>c. of_nat (of_char c)) s)"

definition example_b64encode :: "bytes \<Rightarrow> string" where
  "example_b64encode bs = map (\<lambda>b. char_of (unat b)) bs"

definition example_image_open :: "bytes \<Rightarrow> exn + image" where
  "example_image_open bs =
     (if bs = [] then Inl OSError
      else if length bs = 2
      then Inr (replicate (unat (bs ! 0)) (replicate (unat (bs ! 1)) [0, 0, 0]))
      else Inr [[[hd bs, hd bs, hd bs]]])"

definition example_image_save :: "image \<Rightarrow> bytes" where
  "example_image_save img =
     [of_nat (length img), of_nat (if img = [] then 0 else length (hd img))]"

definition example_mtcnn :: "nat \<Rightarrow> image \<Rightarrow> exn + tensor option" where
  "example_mtcnn n img =
     (if img = [[[112, 112, 112]]] then Inr (Some (replicate 3 (replicate n (replicate n 0))))
      else Inr None)"

definition example_embeddings :: "real list list" where
  "example_embeddings = [[1, 0], [0, 0], [0, 0]]"

definition example_names :: "string list" where
  "example_names = [''alice'', ''bob'', ''carol'']"

definition example_env :: env where
  "example_env =
     \<lparr> TMP_DIR = ''/tmp/faces'',
       utf8_decode = example_utf8_decode,
       json_loads = example_json_loads,
       json_dumps = example_json_dumps,
       b64decode = example_b64decode,
       b64encode = example_b64encode,
       image_open = example_image_open,
       image_save = example_image_save,
       mtcnn = example_mtcnn,
       sqs_accepts = (\<lambda>q body. True),
       tmp_name = (\<lambda>fs. ''/tmp/tmp0.jpg''),
       torch_jit_load = Inr (\<lambda>t. Inr [0, 0]),
       torch_load = Inr (example_embeddings, example_names) \<rparr>"

definition empty_world :: world where
  "empty_world =
     \<lparr> files = Map.empty, request_queue = [], response_queue = [], log = [],
       resnet = None, embeddings = None, names = None \<rparr>"

section \<open>Basic facts\<close>

subsection \<open>Sequencing\<close>

lemma bnd_call_Inr: "bnd (call (Inr x)) f = f x"
  by (rule ext) (simp add: bnd_def call_def)

lemma bnd_call_Inl: "bnd (call (Inl e)) f = call (Inl e)"
  by (rule ext) (simp add: bnd_def call_def)

subsection \<open>Ingestion: messages that are dropped\<close>

lemma on_message_try_incomplete:
  assumes "utf8_decode env payload = Inr str" "json_loads env str = Inr (JObj kvs)"
      and "k \<in> {''encoded'', ''request_id'', ''filename''}"
      and "map_of kvs k = None \<or> (\<exists>v. map_of kvs k = Some v \<and> \<not> truthy v)"
  shows "on_message_try env payload w = (Inr (), w\<lparr>log := log w @ [WARNING]\<rparr>)"
  using assms by (auto simp: on_message_try_def bnd_call_Inr logging_def)

text \<open>
  A payload that is not UTF-8, not JSON, or JSON other than an object raises inside the
  \<^verbatim>\<open>try\<close>: it is logged as an error and nothing else happens.
\<close>

lemma on_message_received_unparsable:
  assumes "\<forall>str kvs. utf8_decode env payload = Inr str \<longrightarrow> json_loads env str \<noteq> Inr (JObj kvs)"
  shows "on_message_received env payload w = w\<lparr>log := log w @ [INFO, ERROR]\<rparr>"
proof (cases "utf8_decode env payload")
  case (Inl e)
  then show ?thesis
    by (simp add: on_message_received_def on_message_try_def bnd_call_Inl call_def logging_def)
next
  case (Inr str)
  show ?thesis
  proof (cases "json_loads env str")
    case (Inl e)
    with Inr show ?thesis
      by (simp add: on_message_received_def on_message_try_def bnd_call_Inl bnd_call_Inr call_def logging_def)
  next
    case (Inr m)
    with assms \<open>utf8_decode env payload = Inr str\<close> have "\<forall>kvs. m \<noteq> JObj kvs" by auto
    then have "py_get m ''encoded'' = Inl AttributeError" by (cases m) auto
    with Inr \<open>utf8_decode env payload = Inr str\<close> show ?thesis
      by (simp add: on_message_received_def on_message_try_def bnd_call_Inl bnd_call_Inr call_def logging_def)
  qed
qed

subsection \<open>Shapes and the normalisation of a crop\<close>

lemma elems_map3: "elems (map3 f t) = map f (elems t)"
  by (simp add: elems_def map3_def map_concat)

lemma has_shape_map3: "has_shape a b c (map3 f t) = has_shape a b c t"
  by (auto simp: has_shape_def map3_def)

lemma has_shape_elems_length: "has_shape a b c t \<Longrightarrow> length (elems t) = a * b * c"
proof -
  assume h: "has_shape a b c t"
  have rows: "\<And>p. p \<in> set t \<Longrightarrow> length (concat p) = b * c"
  proof -
    fix p assume "p \<in> set t"
    with h have lp: "length p = b" and lr: "\<forall>r \<in> set p. length r = c"
      by (auto simp: has_shape_def)
    have "length (concat p) = sum_list (map length p)" by (simp add: length_concat)
    also have "map length p = replicate (length p) c"
      using lr by (induction p) auto
    finally show "length (concat p) = b * c" using lp by (simp add: sum_list_replicate)
  qed
  have "length (elems t) = sum_list (map (\<lambda>p. length (concat p)) t)"
    unfolding elems_def by (induction t) auto
  also have "map (\<lambda>p. length (concat p)) t = replicate (length t) (b * c)"
    using rows by (induction t) auto
  finally show ?thesis using h by (simp add: sum_list_replicate has_shape_def)
qed

lemma has_shape_permute:
  assumes "has_shape a b c t" "0 < a"
  shows "has_shape b c a (permute_1_2_0 t)"
proof -
  from assms have ne: "t \<noteq> []" and hd: "hd t \<in> set t" by (auto simp: has_shape_def)
  with assms have lb: "length (hd t) = b" by (auto simp: has_shape_def)
  have lc: "hd t \<noteq> [] \<Longrightarrow> length (hd (hd t)) = c"
    using assms hd by (auto simp: has_shape_def)
  show ?thesis
  proof (cases "b = 0")
    case True
    with ne lb show ?thesis by (simp add: permute_1_2_0_def has_shape_def Let_def)
  next
    case False
    with lb have "hd t \<noteq> []" by auto
    with ne lb lc assms show ?thesis
      by (auto simp: permute_1_2_0_def has_shape_def Let_def)
  qed
qed

lemma fromarray_rgb_shape: "has_shape h w 3 arr \<Longrightarrow> fromarray_rgb arr = Inr arr"
  by (auto simp: fromarray_rgb_def has_shape_def)

text \<open>
  On a tensor with at least one element the normalisation succeeds, and its result has
  a closed form: with \<open>m\<close> the least and \<open>M\<close> the greatest element, \<open>x\<close> becomes
  \<open>(x - m) / (M - m) * 255\<close> when \<open>m < M\<close>, and 0 otherwise.
\<close>

lemma normalize_crop_closed:
  assumes ne: "elems t \<noteq> []"
  shows "normalize_crop t =
     Inr (if Min (set (elems t)) < Max (set (elems t))
          then map3 (\<lambda>x. (x - Min (set (elems t))) / (Max (set (elems t)) - Min (set (elems t))) * 255) t
          else map3 (\<lambda>x. 0) t)"
proof -
  let ?xs = "elems t"
  let ?m = "Min (set ?xs)"
  let ?M = "Max (set ?xs)"
  have fin: "finite (set ?xs)" "set ?xs \<noteq> {}" using ne by auto
  have mono: "mono (\<lambda>x::real. x - ?m)" by (simp add: mono_def)
  have mx: "Max ((\<lambda>x. x - ?m) ` set ?xs) = ?M - ?m"
    using mono_Max_commute[OF mono fin] by simp
  have mn: "Min ((\<lambda>x. x - ?m) ` set ?xs) = 0"
    using mono_Min_commute[OF mono fin] by simp
  have m3: "map3 (\<lambda>x. x * 255) (map3 (\<lambda>x. x / (?M - ?m)) (map3 (\<lambda>x. x - ?m) t))
          = map3 (\<lambda>x. (x - ?m) / (?M - ?m) * 255) t"
    by (simp add: map3_def comp_def)
  have z3: "map3 (\<lambda>x. x * 0) (map3 (\<lambda>x. x - ?m) t) = map3 (\<lambda>x. 0) t"
    by (simp add: map3_def comp_def)
  show ?thesis
    using ne mx mn m3 z3
    by (simp add: normalize_crop_def bind_exn_def tensor_min_def tensor_max_def tensor_div_def
        elems_map3 Let_def)
qed

lemma normalize_crop_no_zero_division: "normalize_crop t \<noteq> Inl ZeroDivisionError"
proof (cases "elems t = []")
  case True
  then show ?thesis by (simp add: normalize_crop_def bind_exn_def tensor_min_def)
next
  case False
  then show ?thesis by (simp add: normalize_crop_closed)
qed

lemma byte_0: "byte 0 = 0"
  by (simp add: byte_def)

lemma byte_255: "byte 255 = 255"
  by (simp add: byte_def)

subsection \<open>Ingestion: detection\<close>

lemma has_shape_nonempty:
  assumes "has_shape a b c t" "0 < a" "0 < b" "0 < c"
  shows "elems t \<noteq> []"
  using has_shape_elems_length[OF assms(1)] assms(2-) by auto

lemma crop_shape:
  assumes "has_shape 3 image_size image_size t"
  shows "\<exists>u. normalize_crop t = Inr u
           \<and> has_shape image_size image_size 3 (permute_1_2_0 (map3 byte u))"
proof -
  have ne: "elems t \<noteq> []"
    using has_shape_nonempty[OF assms] by (simp add: image_size_def)
  obtain u where u: "normalize_crop t = Inr u" and su: "has_shape 3 image_size image_size u"
    using normalize_crop_closed[OF ne] assms by (simp add: has_shape_map3)
  have "has_shape image_size image_size 3 (permute_1_2_0 (map3 byte u))"
    using has_shape_permute[of 3 image_size image_size "map3 byte u"] su
    by (simp add: has_shape_map3)
  with u show ?thesis by blast
qed

lemma detect_face_found:
  assumes "image_open env image_bytes = Inr img"
      and "mtcnn env image_size img = Inr (Some t)"
      and "normalize_crop t = Inr u"
      and "has_shape h w 3 (permute_1_2_0 (map3 byte u))"
  shows "detect_face_to_file env image_bytes d s =
         (Inr (Some (os_path_join d ''detected_face.jpg'')),
          s\<lparr>files := (files s)(os_path_join d ''detected_face.jpg'' \<mapsto>
                image_save env (permute_1_2_0 (map3 byte u)))\<rparr>)"
  using assms(1-3) fromarray_rgb_shape[OF assms(4)]
  by (simp add: detect_face_to_file_def bnd_call_Inr bnd_def write_file_def call_def Let_def)


subsection \<open>Recognition: what a record sends\<close>

text \<open>
  Loading the models and predicting a name touch neither the queues nor the files nor
  the log. A record whose \<^verbatim>\<open>try\<close> is left by an exception has sent nothing; one whose
  \<^verbatim>\<open>try\<close> completes has sent exactly one body \<open>{request_id, result}\<close>.
\<close>

lemma load_models_queues:
  "load_models env w = (r, w') \<Longrightarrow>
     request_queue w' = request_queue w \<and> response_queue w' = response_queue w
     \<and> files w' = files w \<and> log w' = log w"
  by (auto simp: load_models_def bnd_def split: if_splits sum.splits)

lemma predict_name_frame:
  "predict_name env p w = (r, w') \<Longrightarrow>
     request_queue w' = request_queue w \<and> response_queue w' = response_queue w
     \<and> files w' = files w \<and> log w' = log w"
  by (auto simp: predict_name_def bnd_def read_file_def call_def Let_def
      dest!: load_models_queues split: sum.splits prod.splits)


lemma record_finally_queues:
  "request_queue (snd (record_finally s)) = request_queue (snd s)
   \<and> response_queue (snd (record_finally s)) = response_queue (snd s)
   \<and> log (snd (record_finally s)) = log (snd s)"
  by (simp add: record_finally_def split: option.split)



subsection \<open>The concrete environment\<close>

lemmas example_defs = example_env_def example_utf8_decode_def example_json_loads_def
  example_json_dumps_def example_b64decode_def example_b64encode_def example_image_open_def
  example_image_save_def example_mtcnn_def empty_world_def



lemma example_mtcnn_shape: "has_shape 3 n n (replicate 3 (replicate n (replicate n (0::real))))"
  by (simp add: has_shape_def)

subsection \<open>Recognition: the nearest reference\<close>







subsection \<open>Files\<close>

text \<open>Ingestion writes one fixed path and removes nothing.\<close>

lemma detect_face_to_file_path:
  assumes "detect_face_to_file env image_bytes d w0 = (Inr (Some p0), w1)"
  shows "p0 = os_path_join d ''detected_face.jpg'' \<and> (\<exists>data. files w1 = (files w0)(p0 \<mapsto> data))"
  using assms
  by (auto simp: detect_face_to_file_def bnd_def call_def write_file_def Let_def
      split: sum.splits option.splits)

lemma detect_face_to_file_keeps:
  assumes "detect_face_to_file env image_bytes d w0 = (r, w1)"
  shows "dom (files w0) \<subseteq> dom (files w1) \<and> request_queue w1 = request_queue w0
     \<and> response_queue w1 = response_queue w0 \<and> log w1 = log w0"
  using assms
  by (auto simp: detect_face_to_file_def bnd_def call_def write_file_def Let_def
      split: sum.splits option.splits)

lemma on_message_try_keeps_files:
  assumes "on_message_try env payload w0 = (r, w1)"
  shows "dom (files w0) \<subseteq> dom (files w1)"
  using assms
  by (auto simp: on_message_try_def bnd_def call_def logging_def send_message_def read_file_def Let_def
      dest!: detect_face_to_file_keeps split: sum.splits option.splits prod.splits if_splits)

lemma on_message_received_keeps_files:
  "dom (files w) \<subseteq> dom (files (on_message_received env payload w))"
proof -
  obtain r w1 where t: "on_message_try env payload (snd (logging INFO w)) = (r, w1)"
    by (cases "on_message_try env payload (snd (logging INFO w))")
  from on_message_try_keeps_files[OF t] t show ?thesis
    by (cases r) (auto simp: on_message_received_def logging_def)
qed

text \<open>Recognition reads only \<open>request_id\<close> and \<open>face\<close> of a record's payload.\<close>

lemma record_try_payload_eq:
  assumes "py_subscript r1 ''body'' = Inr b1" "py_json_loads env b1 = Inr (JObj kvs1)"
      and "py_subscript r2 ''body'' = Inr b2" "py_json_loads env b2 = Inr (JObj kvs2)"
      and "\<forall>k. k \<noteq> ''filename'' \<longrightarrow> map_of kvs1 k = map_of kvs2 k"
  shows "record_try env r1 = record_try env r2"
proof -
  from assms(5) have "map_of kvs1 ''request_id'' = map_of kvs2 ''request_id''"
    and "map_of kvs1 ''face'' = map_of kvs2 ''face''" by auto
  with assms(1-4) show ?thesis
    by (simp add: record_try_def bnd_call_Inr)
qed

text \<open>
  A record that gets as far as a decoded crop either could not create its temporary
  file, the name being taken, or has created it under a new name and bound
  \<^verbatim>\<open>face_path\<close> to it; the \<^verbatim>\<open>finally\<close> then removes it.
\<close>

lemma record_try_decoded:
  assumes "py_subscript record ''body'' = Inr body" "py_json_loads env body = Inr payload"
      and "py_subscript payload ''request_id'' = Inr rid" "py_subscript payload ''face'' = Inr face"
      and "py_b64decode env face = Inr data"
      and "record_try env record (fp, w) = (res, (fp', w'))"
  shows "(tmp_name env (files w) \<in> dom (files w) \<and> fp' = fp \<and> files w' = files w)
       \<or> (tmp_name env (files w) \<notin> dom (files w) \<and> fp' = Some (tmp_name env (files w))
          \<and> files w' = (files w)(tmp_name env (files w) \<mapsto> data))"
  using assms
  by (auto simp: record_try_def bnd_def call_def in_world_def named_temporary_file_def
      write_file_def set_face_path_def send_message_def Let_def
      dest!: predict_name_frame split: sum.splits prod.splits if_splits)

lemma process_record_released:
  assumes "py_subscript record ''body'' = Inr body" "py_json_loads env body = Inr payload"
      and "py_subscript payload ''request_id'' = Inr rid" "py_subscript payload ''face'' = Inr face"
      and "py_b64decode env face = Inr data"
      and inv: "\<forall>p. fp = Some p \<longrightarrow> p \<notin> dom (files w)"
  shows "files (snd (process_record env record (fp, w))) = files w"
proof -
  obtain res fp' w' where t: "record_try env record (fp, w) = (res, (fp', w'))"
    by (metis surj_pair)
  from record_try_decoded[OF assms(1-5) t] inv t show ?thesis
    by (cases res) (auto simp: process_record_def record_finally_def in_world_def logging_def
        split: option.splits)
qed

lemma on_message_received_face_files:
  assumes "utf8_decode env payload = Inr str"
      and "json_loads env str = Inr (JObj kvs)"
      and "map_of kvs ''encoded'' = Some encoded" "truthy encoded"
      and "map_of kvs ''request_id'' = Some request_id" "truthy request_id"
      and "map_of kvs ''filename'' = Some filename" "truthy filename"
      and "py_b64decode env encoded = Inr img_bytes"
      and "image_open env img_bytes = Inr img"
      and "mtcnn env image_size img = Inr (Some t)"
      and "normalize_crop t = Inr u"
      and "has_shape h w 3 (permute_1_2_0 (map3 byte u))"
  shows "files (on_message_received env payload s) =
           (files s)(os_path_join (TMP_DIR env) ''detected_face.jpg'' \<mapsto>
              image_save env (permute_1_2_0 (map3 byte u)))"
  using assms(1-9) detect_face_found[OF assms(10-13)]
  by (simp add: on_message_received_def on_message_try_def bnd_call_Inr bnd_def logging_def
      send_message_def read_file_def Let_def)

lemma process_record_face_path:
  "fst (process_record env record s) = Some p \<Longrightarrow> p \<notin> dom (files (snd (process_record env record s)))"
  by (cases "record_try env record s")
     (auto simp: process_record_def record_finally_def in_world_def logging_def
        split: sum.splits option.splits if_splits)

lemma record_try_message:
  assumes "py_subscript r ''body'' = Inr b" "py_json_loads env b = Inr (JObj kvs)"
      and "record_try env r s = (res, s1)"
  shows "response_queue (snd s1) = response_queue (snd s)
       \<or> (\<exists>rid label. map_of kvs ''request_id'' = Some rid \<and> res = Inr ()
            \<and> response_queue (snd s1) = response_queue (snd s) @
                 [json_dumps env (JObj [(''request_id'', rid), (''result'', JStr label)])])"
  using assms
  by (auto simp: record_try_def bnd_def call_def in_world_def named_temporary_file_def
      write_file_def set_face_path_def send_message_def Let_def
      dest!: predict_name_frame split: sum.splits prod.splits if_splits option.splits)

subsection \<open>Runs in the concrete environment\<close>

lemma example_record_ok:
  "record_try example_env (JObj [(''body'', JStr ''rec2'')]) (None, empty_world) =
     (Inr (), (Some ''/tmp/tmp0.jpg'',
        empty_world\<lparr>files := [''/tmp/tmp0.jpg'' \<mapsto> [99, 114, 111, 112]],
          resnet := Some (\<lambda>t. Inr [0, 0]), embeddings := Some example_embeddings,
          names := Some example_names,
          response_queue := [json_dumps example_env
             (JObj [(''request_id'', JStr ''r1''), (''result'', JStr ''bob'')])]\<rparr>))"
  by (simp add: record_try_def predict_name_def load_models_def bnd_def call_def read_file_def Let_def
        example_defs example_embeddings_def example_names_def nearest_name_def bind_exn_def
        torch_dist_def np_argmin_def py_index_def transpose_2_0_1_def map3_def
        in_world_def named_temporary_file_def write_file_def set_face_path_def send_message_def)


lemma example_process_record_ok:
  "process_record example_env (JObj [(''body'', JStr ''rec2'')]) (None, empty_world) =
     (Some ''/tmp/tmp0.jpg'',
        empty_world\<lparr>resnet := Some (\<lambda>t. Inr [0, 0]), embeddings := Some example_embeddings,
          names := Some example_names,
          response_queue := [json_dumps example_env
             (JObj [(''request_id'', JStr ''r1''), (''result'', JStr ''bob'')])]\<rparr>)"
  by (simp add: process_record_def example_record_ok record_finally_def) (simp add: empty_world_def)

lemma example_face_files:
  "\<exists>data. files (on_message_received example_env [1] s) = (files s)(''/tmp/faces/detected_face.jpg'' \<mapsto> data)
       \<and> files (on_message_received example_env [4] s) = (files s)(''/tmp/faces/detected_face.jpg'' \<mapsto> data)"
proof -
  obtain u where u: "normalize_crop (replicate 3 (replicate image_size (replicate image_size 0))) = Inr u"
    and sp: "has_shape image_size image_size 3 (permute_1_2_0 (map3 byte u))"
    using crop_shape[OF example_mtcnn_shape] by blast
  have p: "os_path_join (TMP_DIR example_env) ''detected_face.jpg'' = ''/tmp/faces/detected_face.jpg''"
    by (simp add: example_env_def os_path_join_def)
  have a: "files (on_message_received example_env [1] s) =
           (files s)(os_path_join (TMP_DIR example_env) ''detected_face.jpg'' \<mapsto>
              image_save example_env (permute_1_2_0 (map3 byte u)))"
    by (rule on_message_received_face_files[where str = "''msg1''" and encoded = "JStr ''photo''"
          and request_id = "JStr ''r1''" and filename = "JStr ''a.jpg''"
          and kvs = "[(''encoded'', JStr ''photo''), (''request_id'', JStr ''r1''), (''filename'', JStr ''a.jpg'')]"
          and img_bytes = "[112, 104, 111, 116, 111]" and img = "[[[112, 112, 112]]]", OF _ _ _ _ _ _ _ _ _ _ _ u sp])
       (simp_all add: example_defs)
  have b: "files (on_message_received example_env [4] s) =
           (files s)(os_path_join (TMP_DIR example_env) ''detected_face.jpg'' \<mapsto>
              image_save example_env (permute_1_2_0 (map3 byte u)))"
    by (rule on_message_received_face_files[where str = "''msg4''" and encoded = "JStr ''photo''"
          and request_id = "JStr ''r4''" and filename = "JStr ''d.jpg''"
          and kvs = "[(''encoded'', JStr ''photo''), (''request_id'', JStr ''r4''), (''filename'', JStr ''d.jpg'')]"
          and img_bytes = "[112, 104, 111, 116, 111]" and img = "[[[112, 112, 112]]]", OF _ _ _ _ _ _ _ _ _ _ _ u sp])
       (simp_all add: example_defs)
  from a b p show ?thesis by auto
qed

text \<open>
  With a decoder that rejects the crop, \<^verbatim>\<open>b64decode\<close> raises inside the \<^verbatim>\<open>with\<close> block
  after the temporary file has been created and before \<^verbatim>\<open>face_path\<close> is bound: the
  \<^verbatim>\<open>finally\<close> finds nothing to remove and the empty file stays.
\<close>

lemma example_undecodable_try:
  "record_try (example_env\<lparr>b64decode := \<lambda>s. Inl ValueError\<rparr>)
      (JObj [(''body'', JStr ''rec2'')]) (None, empty_world)
   = (Inl ValueError, (None, empty_world\<lparr>files := [''/tmp/tmp0.jpg'' \<mapsto> []]\<rparr>))"
  by (simp add: record_try_def bnd_def call_def
      in_world_def named_temporary_file_def example_defs Let_def)

lemma recognition_undecodable_crop_leaves_file:
  "files (snd (lambda_handler (example_env\<lparr>b64decode := \<lambda>s. Inl ValueError\<rparr>)
      (JObj [(''Records'', JArr [JObj [(''body'', JStr ''rec2'')]])]) empty_world))
   = [''/tmp/tmp0.jpg'' \<mapsto> []]"
  by (simp add: lambda_handler_def bind_exn_def process_record_def example_undecodable_try
      in_world_def logging_def record_finally_def)

section \<open>The claims\<close>





text \<open>
  Claim C3. An inbound message in which one of the keys \<open>encoded\<close>, \<open>request_id\<close>,
  \<open>filename\<close> is absent, or present with an empty (falsy) value, is dropped: nothing is
  sent to the work queue or to the result channel, no file is written, and the only
  log lines are the entry line and the warning.
\<close>

theorem ingestion_drops_incomplete_message:
  assumes "utf8_decode env payload = Inr str" "json_loads env str = Inr (JObj kvs)"
      and "k \<in> {''encoded'', ''request_id'', ''filename''}"
      and "map_of kvs k = None \<or> (\<exists>v. map_of kvs k = Some v \<and> \<not> truthy v)"
  shows "request_queue (on_message_received env payload w) = request_queue w
       \<and> response_queue (on_message_received env payload w) = response_queue w
       \<and> files (on_message_received env payload w) = files w
       \<and> log (on_message_received env payload w) = log w @ [INFO, WARNING]"
  using on_message_try_incomplete[OF assms] by (simp add: on_message_received_def logging_def)

theorem ingestion_drops_incomplete_message_witness:
  "utf8_decode example_env [3] = Inr ''msg3''
   \<and> json_loads example_env ''msg3'' =
       Inr (JObj [(''encoded'', JStr ''photo''), (''filename'', JStr ''c.jpg'')])
   \<and> map_of [(''encoded'', JStr ''photo''), (''filename'', JStr ''c.jpg'')] ''request_id'' = None
   \<and> request_queue (on_message_received example_env [3] empty_world) = []
   \<and> response_queue (on_message_received example_env [3] empty_world) = []
   \<and> log (on_message_received example_env [3] empty_world) = [INFO, WARNING]"
  using ingestion_drops_incomplete_message[of example_env "[3]" "''msg3''"
      "[(''encoded'', JStr ''photo''), (''filename'', JStr ''c.jpg'')]" "''request_id''" empty_world]
  by (simp add: example_defs)






text \<open>
  Claim C6. The normalisation of a face crop never divides by zero. On a crop with
  at least one element it succeeds, with every intensity in \<open>[0, 255]\<close>; when the crop
  has a positive dynamic range the result spans the full range, with least value 0 and
  greatest value 255, also after conversion to bytes; when the range is zero every byte
  of the result is 0, a uniformly black crop.
\<close>

theorem normalize_crop_full_range:
  "normalize_crop t \<noteq> Inl ZeroDivisionError \<and>
   (elems t \<noteq> [] \<longrightarrow>
     (\<exists>u. normalize_crop t = Inr u
        \<and> (\<forall>x \<in> set (elems u). 0 \<le> x \<and> x \<le> 255)
        \<and> (Min (set (elems t)) < Max (set (elems t)) \<longrightarrow>
              Min (set (elems u)) = 0 \<and> Max (set (elems u)) = 255
            \<and> 0 \<in> set (elems (map3 byte u)) \<and> 255 \<in> set (elems (map3 byte u)))
        \<and> (Min (set (elems t)) = Max (set (elems t)) \<longrightarrow>
              (\<forall>b \<in> set (elems (map3 byte u)). b = 0))))"
proof (intro conjI impI)
  show "normalize_crop t \<noteq> Inl ZeroDivisionError" by (rule normalize_crop_no_zero_division)
next
  assume ne: "elems t \<noteq> []"
  let ?xs = "elems t"
  let ?m = "Min (set ?xs)"
  let ?M = "Max (set ?xs)"
  have fin: "finite (set ?xs)" "set ?xs \<noteq> {}" using ne by auto
  have mM: "?m \<le> ?M" using fin by (meson Max_in Min_le)
  show "\<exists>u. normalize_crop t = Inr u
        \<and> (\<forall>x \<in> set (elems u). 0 \<le> x \<and> x \<le> 255)
        \<and> (?m < ?M \<longrightarrow>
              Min (set (elems u)) = 0 \<and> Max (set (elems u)) = 255
            \<and> 0 \<in> set (elems (map3 byte u)) \<and> 255 \<in> set (elems (map3 byte u)))
        \<and> (?m = ?M \<longrightarrow> (\<forall>b \<in> set (elems (map3 byte u)). b = 0))"
  proof (cases "?m < ?M")
    case False
    with mM have eq: "?m = ?M" by simp
    with ne show ?thesis
      by (simp add: normalize_crop_closed elems_map3 byte_0)
  next
    case True
    let ?f = "\<lambda>x. (x - ?m) / (?M - ?m) * 255"
    have range: "\<And>x. x \<in> set ?xs \<Longrightarrow> 0 \<le> ?f x \<and> ?f x \<le> 255"
    proof -
      fix x assume x: "x \<in> set ?xs"
      then have "?m \<le> x" "x \<le> ?M" using fin by auto
      with True show "0 \<le> ?f x \<and> ?f x \<le> 255"
        by (simp add: divide_simps)
    qed
    have f_m: "?f ?m = 0" by simp
    have f_M: "?f ?M = 255" using True by simp
    have m_in: "?m \<in> set ?xs" and M_in: "?M \<in> set ?xs" using fin by (auto intro: Min_in Max_in)
    have img_fin: "finite (?f ` set ?xs)" by simp
    have lo: "Min (?f ` set ?xs) = 0"
    proof (rule Min_eqI)
      show "finite (?f ` set ?xs)" by simp
      show "\<And>y. y \<in> ?f ` set ?xs \<Longrightarrow> 0 \<le> y" using range by auto
      show "0 \<in> ?f ` set ?xs" using m_in f_m by (metis (no_types, lifting) image_eqI)
    qed
    have hi: "Max (?f ` set ?xs) = 255"
    proof (rule Max_eqI)
      show "finite (?f ` set ?xs)" by simp
      show "\<And>y. y \<in> ?f ` set ?xs \<Longrightarrow> y \<le> 255" using range by auto
      show "255 \<in> ?f ` set ?xs" using M_in f_M by (metis (no_types, lifting) image_eqI)
    qed
    have b0: "0 \<in> (\<lambda>x. byte (?f x)) ` set ?xs"
      using m_in f_m byte_0 by (metis (no_types, lifting) image_eqI)
    have b255: "255 \<in> (\<lambda>x. byte (?f x)) ` set ?xs"
      using M_in f_M byte_255 by (metis (no_types, lifting) image_eqI)
    show ?thesis
      using True ne range lo hi b0 b255
      by (simp add: normalize_crop_closed elems_map3 image_image)
  qed
qed

theorem normalize_crop_full_range_witness:
  "elems [[[1, 3]], [[2, 5]], [[1, 1::real]]] \<noteq> []
   \<and> normalize_crop [[[1, 3]], [[2, 5]], [[1, 1]]] \<noteq> Inl ZeroDivisionError
   \<and> (\<exists>u. normalize_crop [[[1, 3]], [[2, 5]], [[1, 1]]] = Inr u
         \<and> (\<forall>x \<in> set (elems u). 0 \<le> x \<and> x \<le> 255)
         \<and> Min (set (elems u)) = 0 \<and> Max (set (elems u)) = 255
         \<and> 0 \<in> set (elems (map3 byte u)) \<and> 255 \<in> set (elems (map3 byte u)))
   \<and> elems [[[7, 7]], [[7, 7]], [[7, 7::real]]] \<noteq> []
   \<and> (\<exists>u. normalize_crop [[[7, 7]], [[7, 7]], [[7, 7]]] = Inr u
         \<and> (\<forall>b \<in> set (elems (map3 byte u)). b = 0))"
proof -
  have e1: "elems [[[1, 3]], [[2, 5]], [[1, 1::real]]] = [1, 3, 2, 5, 1, 1]"
    by (simp add: elems_def)
  have e2: "elems [[[7, 7]], [[7, 7]], [[7, 7::real]]] = [7, 7, 7, 7, 7, 7]"
    by (simp add: elems_def)
  show ?thesis
    using normalize_crop_full_range[of "[[[1, 3]], [[2, 5]], [[1, 1]]]"] normalize_crop_full_range[of "[[[7, 7]], [[7, 7]], [[7, 7]]]"]
    unfolding e1 e2 by auto
qed

text \<open>
  Claim C7, as amended. In Recognition, a record whose body parses, holds
  \<open>request_id\<close> and \<open>face\<close>, and whose crop decodes, run with \<open>face_path\<close> unbound or
  naming no existing file (as at the start of every iteration), leaves the files exactly
  as they were, whether prediction and sending succeed or fail; the file it used had a
  name that no existing file had. After any record \<open>face_path\<close> names no existing file.
  In Ingestion, every crop is written to the one path \<open>output_dir/detected_face.jpg\<close>,
  and the handler removes no file.
\<close>

theorem temporary_files_by_stage:
  "(py_subscript r ''body'' = Inr body \<and> py_json_loads env body = Inr payload
      \<and> py_subscript payload ''request_id'' = Inr rid \<and> py_subscript payload ''face'' = Inr face
      \<and> py_b64decode env face = Inr data
      \<and> (\<forall>p. fp = Some p \<longrightarrow> p \<notin> dom (files w))
    \<longrightarrow> files (snd (process_record env r (fp, w))) = files w
      \<and> (\<forall>res fp' w'. record_try env r (fp, w) = (res, (fp', w')) \<longrightarrow>
            (tmp_name env (files w) \<in> dom (files w) \<and> fp' = fp \<and> files w' = files w)
          \<or> (tmp_name env (files w) \<notin> dom (files w) \<and> fp' = Some (tmp_name env (files w))
              \<and> files w' = (files w)(tmp_name env (files w) \<mapsto> data))))
   \<and> (\<forall>p. fst (process_record env r (fp, w)) = Some p \<longrightarrow>
          p \<notin> dom (files (snd (process_record env r (fp, w)))))
   \<and> (detect_face_to_file env image_bytes d w0 = (Inr (Some p0), w1) \<longrightarrow>
          p0 = os_path_join d ''detected_face.jpg'' \<and> p0 \<in> dom (files w1))
   \<and> dom (files w0) \<subseteq> dom (files (on_message_received env payload0 w0))"
proof (intro conjI impI allI)
  assume a: "py_subscript r ''body'' = Inr body \<and> py_json_loads env body = Inr payload
      \<and> py_subscript payload ''request_id'' = Inr rid \<and> py_subscript payload ''face'' = Inr face
      \<and> py_b64decode env face = Inr data
      \<and> (\<forall>p. fp = Some p \<longrightarrow> p \<notin> dom (files w))"
  then show "files (snd (process_record env r (fp, w))) = files w"
    using process_record_released[of r body env payload rid face data fp w] by blast
next
  fix res fp' w'
  assume a: "py_subscript r ''body'' = Inr body \<and> py_json_loads env body = Inr payload
      \<and> py_subscript payload ''request_id'' = Inr rid \<and> py_subscript payload ''face'' = Inr face
      \<and> py_b64decode env face = Inr data
      \<and> (\<forall>p. fp = Some p \<longrightarrow> p \<notin> dom (files w))"
    and t: "record_try env r (fp, w) = (res, (fp', w'))"
  from a t show "(tmp_name env (files w) \<in> dom (files w) \<and> fp' = fp \<and> files w' = files w)
          \<or> (tmp_name env (files w) \<notin> dom (files w) \<and> fp' = Some (tmp_name env (files w))
              \<and> files w' = (files w)(tmp_name env (files w) \<mapsto> data))"
    using record_try_decoded[of r body env payload rid face data fp w res fp' w'] by blast
next
  fix p assume "fst (process_record env r (fp, w)) = Some p"
  then show "p \<notin> dom (files (snd (process_record env r (fp, w))))"
    by (rule process_record_face_path)
next
  assume d: "detect_face_to_file env image_bytes d w0 = (Inr (Some p0), w1)"
  from detect_face_to_file_path[OF d] show "p0 = os_path_join d ''detected_face.jpg''" by simp
  from detect_face_to_file_path[OF d] show "p0 \<in> dom (files w1)" by auto
next
  show "dom (files w0) \<subseteq> dom (files (on_message_received env payload0 w0))"
    by (rule on_message_received_keeps_files)
qed

theorem temporary_files_by_stage_witness:
  "py_b64decode example_env (JStr ''crop'') = Inr [99, 114, 111, 112]
   \<and> files (snd (process_record example_env (JObj [(''body'', JStr ''rec2'')]) (None, empty_world)))
       = files empty_world
   \<and> tmp_name example_env (files empty_world) \<notin> dom (files empty_world)
   \<and> (\<exists>w1. detect_face_to_file example_env [112, 104, 111, 116, 111] ''/tmp/faces'' empty_world
              = (Inr (Some ''/tmp/faces/detected_face.jpg''), w1)
         \<and> ''/tmp/faces/detected_face.jpg'' \<in> dom (files w1))"
proof -
  obtain u where u: "normalize_crop (replicate 3 (replicate image_size (replicate image_size 0))) = Inr u"
    and sp: "has_shape image_size image_size 3 (permute_1_2_0 (map3 byte u))"
    using crop_shape[OF example_mtcnn_shape] by blast
  have det: "detect_face_to_file example_env [112, 104, 111, 116, 111] ''/tmp/faces'' empty_world =
         (Inr (Some (os_path_join ''/tmp/faces'' ''detected_face.jpg'')),
          empty_world\<lparr>files := (files empty_world)(os_path_join ''/tmp/faces'' ''detected_face.jpg'' \<mapsto>
                image_save example_env (permute_1_2_0 (map3 byte u)))\<rparr>)"
    by (rule detect_face_found[where img = "[[[112, 112, 112]]]", OF _ _ u sp])
       (simp_all add: example_defs)
  have h: "py_subscript (JObj [(''body'', JStr ''rec2'')]) ''body'' = Inr (JStr ''rec2'')
      \<and> py_json_loads example_env (JStr ''rec2'') =
          Inr (JObj [(''request_id'', JStr ''r1''), (''face'', JStr ''crop'')])
      \<and> py_subscript (JObj [(''request_id'', JStr ''r1''), (''face'', JStr ''crop'')]) ''request_id''
          = Inr (JStr ''r1'')
      \<and> py_subscript (JObj [(''request_id'', JStr ''r1''), (''face'', JStr ''crop'')]) ''face''
          = Inr (JStr ''crop'')
      \<and> py_b64decode example_env (JStr ''crop'') = Inr [99, 114, 111, 112]
      \<and> (\<forall>p. (None :: path option) = Some p \<longrightarrow> p \<notin> dom (files empty_world))"
    by (simp add: example_defs)
  have t: "tmp_name example_env (files empty_world) \<notin> dom (files empty_world)"
    by (simp add: example_defs)
  have p: "os_path_join ''/tmp/faces'' ''detected_face.jpg'' = ''/tmp/faces/detected_face.jpg''"
    by (simp add: os_path_join_def)
  from temporary_files_by_stage[of "JObj [(''body'', JStr ''rec2'')]" "JStr ''rec2''" example_env
        "JObj [(''request_id'', JStr ''r1''), (''face'', JStr ''crop'')]" "JStr ''r1''" "JStr ''crop''"
        "[99, 114, 111, 112]" None empty_world "[112, 104, 111, 116, 111]" "''/tmp/faces''" empty_world
        "os_path_join ''/tmp/faces'' ''detected_face.jpg''"
        "empty_world\<lparr>files := (files empty_world)(os_path_join ''/tmp/faces'' ''detected_face.jpg'' \<mapsto>
                image_save example_env (permute_1_2_0 (map3 byte u)))\<rparr>"]
    h det t
  show ?thesis unfolding p by auto
qed

text \<open>
  Claim C7 as stated fails in Ingestion: after the handler has finished with the
  photo of request \<open>r1\<close> the crop file is still there, and the photo of request \<open>r4\<close>
  is written to the same name, which is again still there after that handler has
  finished.
\<close>

theorem ingestion_crop_file_counterexample:
  "''/tmp/faces/detected_face.jpg'' \<in> dom (files (on_message_received example_env [1] empty_world))
   \<and> dom (files (on_message_received example_env [4] (on_message_received example_env [1] empty_world)))
       = {''/tmp/faces/detected_face.jpg''}"
proof -
  obtain d1 where d1: "files (on_message_received example_env [1] empty_world)
      = (files empty_world)(''/tmp/faces/detected_face.jpg'' \<mapsto> d1)"
    using example_face_files[of empty_world] by blast
  obtain d2 where d2: "files (on_message_received example_env [4] (on_message_received example_env [1] empty_world))
      = (files (on_message_received example_env [1] empty_world))(''/tmp/faces/detected_face.jpg'' \<mapsto> d2)"
    using example_face_files[of "on_message_received example_env [1] empty_world"] by blast
  have e: "files empty_world = Map.empty" by (simp add: empty_world_def)
  show ?thesis unfolding d2 d1 e by simp
qed

text \<open>
  Claim C8. What the Ingestion handler sends for a payload does not depend on the
  state it starts from: two deliveries of the same payload, from any two states, send
  the same messages on the same queues, and a delivery only appends to the queues.
\<close>

theorem ingestion_redelivery_same_output:
  "emitted w1 (on_message_received env payload w1) = emitted w2 (on_message_received env payload w2)
   \<and> take (length (request_queue w1)) (request_queue (on_message_received env payload w1)) = request_queue w1
   \<and> take (length (response_queue w1)) (response_queue (on_message_received env payload w1)) = response_queue w1"
  by (simp add: on_message_received_def on_message_try_def detect_face_to_file_def bnd_def call_def
      logging_def send_message_def read_file_def write_file_def emitted_def Let_def
      split: sum.split option.split prod.split queue.split)

theorem ingestion_redelivery_same_output_witness:
  "emitted empty_world (on_message_received example_env [2] empty_world)
   = emitted (on_message_received example_env [2] empty_world)
       (on_message_received example_env [2] (on_message_received example_env [2] empty_world))
   \<and> emitted empty_world (on_message_received example_env [2] empty_world)
     = ([], [json_dumps example_env (JObj [(''request_id'', JStr ''r2''), (''filename'', JStr ''b.jpg''),
                                      (''result'', JStr ''No-Face'')])])"
proof -
  have "emitted empty_world (on_message_received example_env [2] empty_world)
     = ([], [json_dumps example_env (JObj [(''request_id'', JStr ''r2''), (''filename'', JStr ''b.jpg''),
                                      (''result'', JStr ''No-Face'')])])"
    by (simp add: example_defs emitted_def on_message_received_def on_message_try_def
        detect_face_to_file_def bnd_def call_def logging_def send_message_def)
  with ingestion_redelivery_same_output[of empty_world example_env "[2]" "on_message_received example_env [2] empty_world"]
  show ?thesis by simp
qed

text \<open>
  Claim C9. Two records whose bodies parse to objects that agree on every key but
  \<open>filename\<close> are processed alike from every state: the state after the record is the
  same, so are the result and the state of \<^verbatim>\<open>lambda_handler\<close> on two batches that differ
  in that record only, and what the record sends is nothing or the one body of
  \<open>{request_id, result}\<close> with the record's \<open>request_id\<close>. In the example
  environment a record without \<open>filename\<close> is processed to its result message.
\<close>

theorem recognition_ignores_filename:
  assumes "py_subscript r1 ''body'' = Inr b1" "py_json_loads env b1 = Inr (JObj kvs1)"
      and "py_subscript r2 ''body'' = Inr b2" "py_json_loads env b2 = Inr (JObj kvs2)"
      and "\<forall>k. k \<noteq> ''filename'' \<longrightarrow> map_of kvs1 k = map_of kvs2 k"
  shows "process_record env r1 s = process_record env r2 s
       \<and> lambda_handler env (JObj [(''Records'', JArr (pre @ r1 # post))]) w
         = lambda_handler env (JObj [(''Records'', JArr (pre @ r2 # post))]) w
       \<and> (response_queue (snd (process_record env r1 s)) = response_queue (snd s)
          \<or> (\<exists>rid label. map_of kvs1 ''request_id'' = Some rid
                \<and> response_queue (snd (process_record env r1 s)) = response_queue (snd s) @
                     [json_dumps env (JObj [(''request_id'', rid), (''result'', JStr label)])]))"
proof -
  have rt: "record_try env r1 = record_try env r2"
    by (rule record_try_payload_eq[OF assms])
  then have pr: "process_record env r1 = process_record env r2"
    by (intro ext) (simp add: process_record_def)
  have lh: "lambda_handler env (JObj [(''Records'', JArr (pre @ r1 # post))]) w
         = lambda_handler env (JObj [(''Records'', JArr (pre @ r2 # post))]) w"
    by (simp add: lambda_handler_def bind_exn_def pr)
  obtain res s1 where t: "record_try env r1 s = (res, s1)" by (cases "record_try env r1 s")
  have q: "response_queue (snd (process_record env r1 s)) = response_queue (snd s1)"
    using t by (cases res) (simp_all add: process_record_def record_finally_queues in_world_def logging_def)
  from record_try_message[OF assms(1,2) t] q pr lh show ?thesis by auto
qed

theorem recognition_ignores_filename_witness:
  "py_json_loads example_env (JStr ''rec1'') =
     Inr (JObj [(''request_id'', JStr ''r1''), (''filename'', JStr ''a.jpg''), (''face'', JStr ''crop'')])
   \<and> py_json_loads example_env (JStr ''rec2'') =
     Inr (JObj [(''request_id'', JStr ''r1''), (''face'', JStr ''crop'')])
   \<and> lambda_handler example_env (JObj [(''Records'', JArr [JObj [(''body'', JStr ''rec1'')]])]) empty_world
     = lambda_handler example_env (JObj [(''Records'', JArr [JObj [(''body'', JStr ''rec2'')]])]) empty_world
   \<and> response_queue (snd (lambda_handler example_env
        (JObj [(''Records'', JArr [JObj [(''body'', JStr ''rec2'')]])]) empty_world))
     = [json_dumps example_env (JObj [(''request_id'', JStr ''r1''), (''result'', JStr ''bob'')])]"
proof -
  have h1: "py_subscript (JObj [(''body'', JStr ''rec1'')]) ''body'' = Inr (JStr ''rec1'')" by simp
  have h2: "py_json_loads example_env (JStr ''rec1'') =
     Inr (JObj [(''request_id'', JStr ''r1''), (''filename'', JStr ''a.jpg''), (''face'', JStr ''crop'')])"
    by (simp add: example_defs)
  have h3: "py_subscript (JObj [(''body'', JStr ''rec2'')]) ''body'' = Inr (JStr ''rec2'')" by simp
  have h4: "py_json_loads example_env (JStr ''rec2'') =
     Inr (JObj [(''request_id'', JStr ''r1''), (''face'', JStr ''crop'')])"
    by (simp add: example_defs)
  have h5: "\<forall>k. k \<noteq> ''filename'' \<longrightarrow>
      map_of [(''request_id'', JStr ''r1''), (''filename'', JStr ''a.jpg''), (''face'', JStr ''crop'')] k
      = map_of [(''request_id'', JStr ''r1''), (''face'', JStr ''crop'')] k"
    by simp
  have e: "lambda_handler example_env (JObj [(''Records'', JArr ([] @ JObj [(''body'', JStr ''rec1'')] # []))]) empty_world
     = lambda_handler example_env (JObj [(''Records'', JArr ([] @ JObj [(''body'', JStr ''rec2'')] # []))]) empty_world"
    using recognition_ignores_filename[OF h1 h2 h3 h4 h5, of "(None, empty_world)" "[]" "[]" empty_world] by blast
  have r: "response_queue (snd (lambda_handler example_env
        (JObj [(''Records'', JArr [JObj [(''body'', JStr ''rec2'')]])]) empty_world))
     = [json_dumps example_env (JObj [(''request_id'', JStr ''r1''), (''result'', JStr ''bob'')])]"
    by (simp add: lambda_handler_def bind_exn_def example_process_record_ok)
  from e r h2 h4 show ?thesis by simp
qed



end
